theory Spec2Isabelle
  imports Complex_Main
begin

section \<open>JavaScript values\<close>

text \<open>
  The progress channel delivers JSON; a field that is absent reads as \<open>undefined\<close>.
  A JSON number is kept as the rational it denotes.
\<close>

datatype jsval =
    JUndefined
  | JNull
  | JBool bool
  | JNum rat
  | JStr string
  | JArr "jsval list"
  | JObj "(string \<times> jsval) list"

text \<open>JavaScript truthiness, as used by \<open>a || b\<close> and \<open>if (a)\<close>.\<close>

fun truthy :: "jsval \<Rightarrow> bool" where
  "truthy JUndefined = False"
| "truthy JNull = False"
| "truthy (JBool b) = b"
| "truthy (JNum n) = (n \<noteq> 0)"
| "truthy (JStr s) = (s \<noteq> [])"
| "truthy (JArr xs) = True"
| "truthy (JObj kvs) = True"

definition js_or :: "jsval \<Rightarrow> jsval \<Rightarrow> jsval" where
  "js_or a b = (if truthy a then a else b)"

text \<open>\<open>xs.slice(-n)\<close> for a positive \<open>n\<close>: the last \<open>n\<close> elements, or all of a shorter array.\<close>

definition slice_last :: "nat \<Rightarrow> 'a list \<Rightarrow> 'a list" where
  "slice_last n xs = drop (length xs - n) xs"

section \<open>ProgressPanel.js\<close>

text \<open>
  The parsed WebSocket message \<open>data\<close>: the fields the handler reads.
\<close>

record ws_message =
  d_type :: jsval
  d_progress :: jsval
  d_step :: jsval
  d_message :: jsval
  d_details :: jsval
  d_level :: jsval

text \<open>
  What \<open>addLog\<close> reads from the environment: \<open>Date.now() + Math.random()\<close> and
  \<open>new Date().toLocaleTimeString()\<close>.
\<close>

record clock =
  now_id :: rat
  now_time :: string

record log_entry =
  log_id :: rat
  timestamp :: string
  level :: jsval
  message :: jsval
  details :: jsval

text \<open>The \<open>useState\<close> cells of the panel.\<close>

record panel_state =
  progress :: jsval
  currentStep :: jsval
  currentMessage :: jsval
  logs :: "log_entry list"
  stats :: jsval
  isConnected :: bool
  connectionError :: jsval

definition panel_init :: panel_state where
  "panel_init = \<lparr> progress = JNum 0, currentStep = JStr '''', currentMessage = JStr '''',
     logs = [], stats = JNull, isConnected = False, connectionError = JNull \<rparr>"

text \<open>
  The entry \<open>addLog\<close> builds. The parameter \<open>details\<close> has the default \<open>null\<close>, which
  JavaScript substitutes when the argument is \<open>undefined\<close>.
\<close>

definition logEntry :: "clock \<Rightarrow> jsval \<Rightarrow> jsval \<Rightarrow> jsval \<Rightarrow> log_entry" where
  "logEntry c lv msg det =
     \<lparr> log_id = now_id c, timestamp = now_time c, level = lv, message = msg,
       details = (if det = JUndefined then JNull else det) \<rparr>"

definition addLog :: "clock \<Rightarrow> jsval \<Rightarrow> jsval \<Rightarrow> jsval \<Rightarrow> panel_state \<Rightarrow> panel_state" where
  "addLog c lv msg det s = s\<lparr> logs := slice_last 100 (logs s @ [logEntry c lv msg det]) \<rparr>"

text \<open>
  \<open>handleWebSocketMessage\<close>: a \<open>switch\<close> on \<open>data.type\<close> (strict equality with the
  string literal of each case). The timer that closes the socket two seconds after a
  completion changes no cell of the panel when it is set.
\<close>

definition handleWebSocketMessage :: "clock \<Rightarrow> ws_message \<Rightarrow> panel_state \<Rightarrow> panel_state" where
  "handleWebSocketMessage c d s =
     (if d_type d = JStr ''connection'' then s
      else if d_type d = JStr ''progress'' then
        (let s1 = s\<lparr> progress := js_or (d_progress d) (JNum 0),
                      currentStep := js_or (d_step d) (JStr ''''),
                      currentMessage := js_or (d_message d) (JStr '''') \<rparr>;
             s2 = (if truthy (d_details d) then s1\<lparr> stats := d_details d \<rparr> else s1)
         in addLog c (JStr ''info'') (d_message d) (d_details d) s2)
      else if d_type d = JStr ''log'' then
        addLog c (d_level d) (d_message d) (d_details d) s
      else if d_type d = JStr ''error'' then
        (addLog c (JStr ''error'') (d_message d) (d_details d) s)
          \<lparr> connectionError := d_message d \<rparr>
      else if d_type d = JStr ''completion'' then
        (addLog c (JStr ''success'') (JStr ''Processing completed successfully!'') JUndefined s)
          \<lparr> progress := JNum 100,
            currentStep := JStr ''completion'',
            currentMessage := JStr ''Processing completed successfully!'' \<rparr>
      else s)"

text \<open>A stream of messages, each handled at its own clock reading, in arrival order.\<close>

fun handleStream :: "(clock \<times> ws_message) list \<Rightarrow> panel_state \<Rightarrow> panel_state" where
  "handleStream [] s = s"
| "handleStream ((c, d) # evs) s = handleStream evs (handleWebSocketMessage c d s)"

text \<open>A sequence of \<open>addLog\<close> calls: clock reading, level, message, details of each.\<close>

fun addLogs :: "(clock \<times> jsval \<times> jsval \<times> jsval) list \<Rightarrow> panel_state \<Rightarrow> panel_state" where
  "addLogs [] s = s"
| "addLogs ((c, lv, msg, det) # es) s = addLogs es (addLog c lv msg det s)"

definition entryOf :: "clock \<times> jsval \<times> jsval \<times> jsval \<Rightarrow> log_entry" where
  "entryOf e = (case e of (c, lv, msg, det) \<Rightarrow> logEntry c lv msg det)"

section \<open>constants/config.js\<close>

definition OUTPUT_FORMATS :: "string list" where
  "OUTPUT_FORMATS = [''srt'', ''vtt'', ''lrc'', ''txt'']"

definition DEFAULT_OUTPUT_FORMATS :: "string list" where
  "DEFAULT_OUTPUT_FORMATS = [''srt'']"

definition DEFAULT_MIN_SPEECH_DURATION :: int where
  "DEFAULT_MIN_SPEECH_DURATION = 500"

definition DEFAULT_MIN_SILENCE_DURATION :: int where
  "DEFAULT_MIN_SILENCE_DURATION = 500"

text \<open>\<open>MAX_FILES\<close> is exported, and imported by FileUpload.js; no handler reads it.\<close>

definition MAX_FILES :: nat where
  "MAX_FILES = 10"

section \<open>Strings and numbers of the form\<close>

text \<open>\<open>s || fallback\<close> on a string that may be missing (\<open>undefined\<close> or \<open>null\<close>).\<close>

definition str_or :: "string option \<Rightarrow> string \<Rightarrow> string" where
  "str_or v fallback = (case v of Some s \<Rightarrow> if s \<noteq> [] then s else fallback | None \<Rightarrow> fallback)"

text \<open>\<open>n || fallback\<close> on a number: \<open>None\<close> is \<open>NaN\<close>; \<open>NaN\<close> and 0 are falsy.\<close>

definition num_or :: "int option \<Rightarrow> int \<Rightarrow> int" where
  "num_or v fallback = (case v of Some n \<Rightarrow> if n \<noteq> 0 then n else fallback | None \<Rightarrow> fallback)"

text \<open>\<open>xs.join(sep)\<close> on an array of strings.\<close>

fun js_join :: "string \<Rightarrow> string list \<Rightarrow> string" where
  "js_join sep [] = ''''"
| "js_join sep [x] = x"
| "js_join sep (x # y # ys) = x @ sep @ js_join sep (y # ys)"

text \<open>
  \<open>String(v)\<close>, the conversion \<open>new Error(v)\<close> applies to its message. An array is
  the join of its elements by commas, \<open>null\<close> and \<open>undefined\<close> elements giving the empty
  string; a plain object is \<open>[object Object]\<close>. The text of a number is the argument
  \<open>numberToString\<close>.
\<close>

fun js_toString :: "(rat \<Rightarrow> string) \<Rightarrow> jsval \<Rightarrow> string" where
  "js_toString numberToString JUndefined = ''undefined''"
| "js_toString numberToString JNull = ''null''"
| "js_toString numberToString (JBool b) = (if b then ''true'' else ''false'')"
| "js_toString numberToString (JNum n) = numberToString n"
| "js_toString numberToString (JStr s) = s"
| "js_toString numberToString (JArr xs) =
     js_join '','' (map (\<lambda>x. if x = JUndefined \<or> x = JNull then ''''
                               else js_toString numberToString x) xs)"
| "js_toString numberToString (JObj kvs) = ''[object Object]''"

text \<open>
  \<open>parseInt(string)\<close> with no radix: leading white space is skipped, a sign is read, a
  \<open>0x\<close> prefix selects radix 16, and the longest prefix of digits is the value; with no
  digit the result is \<open>NaN\<close>. The value is kept as an exact integer, which is what
  JavaScript returns up to \<open>2^53\<close> (beyond, it rounds to a double); of the white space
  JavaScript skips, the characters of ASCII are modelled.
\<close>

definition isWhiteSpace :: "char \<Rightarrow> bool" where
  "isWhiteSpace c = (c \<in> set [CHR 0x09, CHR 0x0A, CHR 0x0B, CHR 0x0C, CHR 0x0D, CHR '' ''])"

definition digitValue :: "nat \<Rightarrow> char \<Rightarrow> nat option" where
  "digitValue radix c =
     (case map_of
        [(CHR ''0'', 0), (CHR ''1'', 1), (CHR ''2'', 2), (CHR ''3'', 3), (CHR ''4'', 4),
         (CHR ''5'', 5), (CHR ''6'', 6), (CHR ''7'', 7), (CHR ''8'', 8), (CHR ''9'', 9),
         (CHR ''a'', 10), (CHR ''b'', 11), (CHR ''c'', 12), (CHR ''d'', 13), (CHR ''e'', 14),
         (CHR ''f'', 15), (CHR ''A'', 10), (CHR ''B'', 11), (CHR ''C'', 12), (CHR ''D'', 13),
         (CHR ''E'', 14), (CHR ''F'', 15)] c of
        Some v \<Rightarrow> if v < radix then Some v else None
      | None \<Rightarrow> None)"

fun digitsPrefix :: "nat \<Rightarrow> string \<Rightarrow> nat list" where
  "digitsPrefix radix [] = []"
| "digitsPrefix radix (c # cs) =
     (case digitValue radix c of Some v \<Rightarrow> v # digitsPrefix radix cs | None \<Rightarrow> [])"

definition digitsNumber :: "nat \<Rightarrow> nat list \<Rightarrow> nat" where
  "digitsNumber radix ds = foldl (\<lambda>acc v. acc * radix + v) 0 ds"

definition parseInt :: "string \<Rightarrow> int option" where
  "parseInt str =
     (let s = dropWhile isWhiteSpace str;
          (sign, s1) = (case s of
                          [] \<Rightarrow> (1, s)
                        | c # cs \<Rightarrow> if c = CHR ''-'' then (- 1, cs)
                                     else if c = CHR ''+'' then (1, cs) else (1, s));
          (radix, s2) = (case s1 of
                           a # b # cs \<Rightarrow> if a = CHR ''0'' \<and> (b = CHR ''x'' \<or> b = CHR ''X'')
                                          then (16, cs) else (10, s1)
                         | _ \<Rightarrow> (10, s1));
          ds = digitsPrefix radix s2
      in if ds = [] then None else Some (sign * int (digitsNumber radix ds)))"

section \<open>Form data and requests\<close>

datatype upload = File string

text \<open>
  A \<open>FormData\<close> is the list of its entries in the order of the \<open>append\<close> calls. A
  number appended is kept as the number (the browser sends its decimal text).
\<close>

datatype form_value = FFile upload | FText string | FNum int

type_synonym form_data = "(string \<times> form_value) list"

definition fd_append :: "form_data \<Rightarrow> string \<Rightarrow> form_value \<Rightarrow> form_data" where
  "fd_append fd k v = fd @ [(k, v)]"

definition fd_has :: "form_data \<Rightarrow> string \<Rightarrow> bool" where
  "fd_has fd k = (k \<in> set (map fst fd))"

definition fd_getAll :: "form_data \<Rightarrow> string \<Rightarrow> form_value list" where
  "fd_getAll fd k = map snd (filter (\<lambda>e. fst e = k) fd)"

text \<open>The body of a successful reply, \<open>response.data\<close>.\<close>

datatype response = Response string

text \<open>
  How the awaited POST settles: resolved with the reply's data, or rejected with an
  error \<open>err\<close>; \<open>Rejected\<close> carries \<open>err.response?.data?.detail\<close>, any JSON value, or
  \<open>undefined\<close> when the error has no reply, no data or no detail.
\<close>

datatype http_outcome = Resolved response | Rejected jsval

datatype request = Post string form_data

section \<open>State of the form\<close>

text \<open>
  The \<open>useState\<close> cells of the form. Both generations of \<open>App\<close> have them; the
  refactored \<open>App\<close> adds \<open>asrLanguage\<close>.
\<close>

record form_state =
  audioFiles :: "upload list"
  asrMethod :: string
  availablePlugins :: "string list"
  outputFormats :: "string list"
  showAdvancedOptions :: bool
  minSpeechDuration :: int
  minSilenceDuration :: int
  asrApiUrl :: string
  asrApiKey :: string
  asrModel :: string

record app_state = form_state +
  asrLanguage :: string

text \<open>
  The processing cells: they live in the hook \<open>useASRProcessing\<close> for the refactored
  \<open>App\<close>, and in \<open>App\<close> itself for the monolithic one. A cell that is \<open>null\<close> is
  \<open>None\<close>. The hook stores only strings in \<open>error\<close>; the monolithic \<open>App\<close> stores a
  string literal or the reply's detail, whatever JSON value that is.
\<close>

record 'e proc_state =
  isProcessing :: bool
  error :: "'e option"
  result :: "response option"
  multiFileResult :: "response option"

definition proc_init :: "'e proc_state" where
  "proc_init = \<lparr> isProcessing = False, error = None, result = None, multiFileResult = None \<rparr>"

text \<open>Initial cells of the refactored \<open>App\<close>.\<close>

definition app_init :: app_state where
  "app_init = \<lparr> audioFiles = [], asrMethod = '''', availablePlugins = [],
     outputFormats = DEFAULT_OUTPUT_FORMATS, showAdvancedOptions = False,
     minSpeechDuration = DEFAULT_MIN_SPEECH_DURATION,
     minSilenceDuration = DEFAULT_MIN_SILENCE_DURATION,
     asrApiUrl = '''', asrApiKey = '''', asrModel = '''', asrLanguage = ''auto'' \<rparr>"

text \<open>Initial cells of the monolithic \<open>App\<close>.\<close>

definition mono_init :: form_state where
  "mono_init = \<lparr> audioFiles = [], asrMethod = ''faster-whisper'', availablePlugins = [],
     outputFormats = [''srt''], showAdvancedOptions = False,
     minSpeechDuration = 500, minSilenceDuration = 500,
     asrApiUrl = '''', asrApiKey = '''', asrModel = '''' \<rparr>"

section \<open>Handlers shared by both generations of App\<close>

text \<open>The updater that \<open>handleFormatChange\<close> passes to \<open>setOutputFormats\<close>.\<close>

definition formatUpdater :: "string \<Rightarrow> string list \<Rightarrow> string list" where
  "formatUpdater format prev =
     (if format \<in> set prev then filter (\<lambda>f. f \<noteq> format) prev else prev @ [format])"

definition handleFormatChange :: "string \<Rightarrow> 'a form_state_scheme \<Rightarrow> 'a form_state_scheme" where
  "handleFormatChange format a = a\<lparr> outputFormats := formatUpdater format (outputFormats a) \<rparr>"

fun formatChanges :: "string list \<Rightarrow> 'a form_state_scheme \<Rightarrow> 'a form_state_scheme" where
  "formatChanges [] a = a"
| "formatChanges (f # fs) a = formatChanges fs (handleFormatChange f a)"

text \<open>The click handler of the advanced-options toggle.\<close>

definition onToggleAdvancedOptions :: "'a form_state_scheme \<Rightarrow> 'a form_state_scheme" where
  "onToggleAdvancedOptions a = a\<lparr> showAdvancedOptions := \<not> showAdvancedOptions a \<rparr>"

text \<open>The setter of the \<open>audioFiles\<close> cell, called with the files picked.\<close>

definition setAudioFiles :: "upload list \<Rightarrow> 'a form_state_scheme \<Rightarrow> 'a form_state_scheme" where
  "setAudioFiles files a = a\<lparr> audioFiles := files \<rparr>"

section \<open>services/api.js\<close>

text \<open>
  Each function returns the reply's data, or throws
  \<open>new Error(error.response?.data?.detail || fallback)\<close>; \<open>Inl\<close> carries the message of
  the error thrown.
\<close>

definition api_processSingleFile :: "(rat \<Rightarrow> string) \<Rightarrow> http_outcome \<Rightarrow> string + response" where
  "api_processSingleFile numberToString out =
     (case out of
        Resolved data \<Rightarrow> Inr data
      | Rejected detail \<Rightarrow>
          Inl (js_toString numberToString (js_or detail (JStr ''Processing failed''))))"

definition api_processMultipleFiles :: "(rat \<Rightarrow> string) \<Rightarrow> http_outcome \<Rightarrow> string + response" where
  "api_processMultipleFiles numberToString out =
     (case out of
        Resolved data \<Rightarrow> Inr data
      | Rejected detail \<Rightarrow>
          Inl (js_toString numberToString (js_or detail (JStr ''Batch processing failed''))))"

text \<open>
  The reply of \<open>fetchPlugins\<close>: the plugin names and \<open>default_method\<close> (\<open>None\<close> when
  it is \<open>null\<close> or absent), or the error it throws.
\<close>

datatype plugins_reply = PluginsOk "string list" "string option" | PluginsFailed

section \<open>hooks/useASRProcessing.js\<close>

definition resetResults :: "'e proc_state \<Rightarrow> 'e proc_state" where
  "resetResults p = p\<lparr> error := None, result := None, multiFileResult := None \<rparr>"

text \<open>
  Each handler returns the cells after it has finished, and the requests it issued. Its
  first argument is the text JavaScript gives a number, its second how the request
  settles.
\<close>

definition hook_handleSingleSubmit ::
  "(rat \<Rightarrow> string) \<Rightarrow> http_outcome \<Rightarrow> form_data \<Rightarrow> string proc_state
     \<Rightarrow> string proc_state \<times> request list" where
  "hook_handleSingleSubmit numberToString out formData p =
     (let p1 = resetResults (p\<lparr> isProcessing := True \<rparr>);
          p2 = (case api_processSingleFile numberToString out of
                  Inr response \<Rightarrow> p1\<lparr> result := Some response \<rparr>
                | Inl err_message \<Rightarrow> p1\<lparr> error := Some err_message \<rparr>)
      in (p2\<lparr> isProcessing := False \<rparr>, [Post ''/asr/process'' formData]))"

definition hook_handleMultipleSubmit ::
  "(rat \<Rightarrow> string) \<Rightarrow> http_outcome \<Rightarrow> form_data \<Rightarrow> string proc_state
     \<Rightarrow> string proc_state \<times> request list" where
  "hook_handleMultipleSubmit numberToString out formData p =
     (let p1 = resetResults (p\<lparr> isProcessing := True \<rparr>);
          p2 = (case api_processMultipleFiles numberToString out of
                  Inr response \<Rightarrow> p1\<lparr> multiFileResult := Some response \<rparr>
                | Inl err_message \<Rightarrow> p1\<lparr> error := Some err_message \<rparr>)
      in (p2\<lparr> isProcessing := False \<rparr>, [Post ''/asr/process-multiple'' formData]))"

text \<open>
  \<open>buildFormData\<close>: its argument object carries the cells of \<open>App\<close> and \<open>isMultiple\<close>.
  \<open>audioFiles[0]\<close> of an empty array is \<open>undefined\<close>, which \<open>append\<close> stores as text.
\<close>

definition buildFormData :: "app_state \<Rightarrow> bool \<Rightarrow> form_data" where
  "buildFormData a isMultiple =
     (let fd0 = (if isMultiple
                 then foldl (\<lambda>fd f. fd_append fd ''audio_files'' (FFile f)) [] (audioFiles a)
                 else fd_append [] ''media_file''
                        (case audioFiles a of f # fs \<Rightarrow> FFile f | [] \<Rightarrow> FText ''undefined''));
          fd1 = fd_append fd0 ''asr_method'' (FText (asrMethod a));
          fd2 = fd_append fd1 ''output_formats'' (FText (js_join '','' (outputFormats a)))
      in if showAdvancedOptions a then
           (let fd3 = fd_append fd2 ''min_speech_duration''
                        (FNum (num_or (Some (minSpeechDuration a)) DEFAULT_MIN_SPEECH_DURATION));
                fd4 = fd_append fd3 ''min_silence_duration''
                        (FNum (num_or (Some (minSilenceDuration a)) DEFAULT_MIN_SILENCE_DURATION));
                fd5 = (if asrApiUrl a \<noteq> [] then fd_append fd4 ''asr_api_url'' (FText (asrApiUrl a))
                       else fd4);
                fd6 = (if asrApiKey a \<noteq> [] then fd_append fd5 ''asr_api_key'' (FText (asrApiKey a))
                       else fd5);
                fd7 = (if asrModel a \<noteq> [] then fd_append fd6 ''asr_model'' (FText (asrModel a))
                       else fd6)
            in fd_append fd7 ''language'' (FText (str_or (Some (asrLanguage a)) ''auto'')))
         else fd2)"

section \<open>The refactored App and AdvancedOptions.js\<close>

text \<open>
  \<open>fetchAvailablePlugins\<close> is created anew at each render and reads the \<open>asrMethod\<close> of
  that render, the argument \<open>asrMethod_seen\<close>; its setters act on the cells as they are
  when the reply arrives.
\<close>

definition fetchAvailablePlugins :: "plugins_reply \<Rightarrow> string \<Rightarrow> app_state \<Rightarrow> app_state" where
  "fetchAvailablePlugins reply asrMethod_seen a =
     (case reply of
        PluginsFailed \<Rightarrow> a
      | PluginsOk plugins defaultMethod \<Rightarrow>
          (let a1 = a\<lparr> availablePlugins := plugins \<rparr>;
               otherwise = (case plugins of
                              first # rest \<Rightarrow> if asrMethod_seen = [] then a1\<lparr> asrMethod := first \<rparr>
                                              else a1
                            | [] \<Rightarrow> a1)
           in case defaultMethod of
                Some d \<Rightarrow> if d \<noteq> [] \<and> d \<in> set plugins then a1\<lparr> asrMethod := d \<rparr> else otherwise
              | None \<Rightarrow> otherwise))"

text \<open>
  The effect \<open>useEffect(() => { fetchAvailablePlugins(); }, [])\<close>, the only caller: it runs
  once, after the first render, with the function of that render, whose \<open>asrMethod\<close> is
  the initial one.
\<close>

definition useEffect_mount :: "plugins_reply \<Rightarrow> app_state \<Rightarrow> app_state" where
  "useEffect_mount reply a = fetchAvailablePlugins reply (asrMethod app_init) a"

definition handleVadConfigChange :: "string \<Rightarrow> int \<Rightarrow> app_state \<Rightarrow> app_state" where
  "handleVadConfigChange field v a =
     (if field = ''minSpeechDuration'' then a\<lparr> minSpeechDuration := v \<rparr>
      else if field = ''minSilenceDuration'' then a\<lparr> minSilenceDuration := v \<rparr>
      else a)"

text \<open>\<open>handleVadChange\<close> of AdvancedOptions.js, with \<open>onVadConfigChange\<close> bound as App binds it.\<close>

definition handleVadChange :: "string \<Rightarrow> string \<Rightarrow> app_state \<Rightarrow> app_state" where
  "handleVadChange field v a =
     handleVadConfigChange field
       (num_or (parseInt v)
          (if field = ''minSpeechDuration'' then DEFAULT_MIN_SPEECH_DURATION
           else DEFAULT_MIN_SILENCE_DURATION)) a"

definition handleAsrConfigChange :: "string \<Rightarrow> string \<Rightarrow> app_state \<Rightarrow> app_state" where
  "handleAsrConfigChange field v a =
     (if field = ''asrApiUrl'' then a\<lparr> asrApiUrl := v \<rparr>
      else if field = ''asrApiKey'' then a\<lparr> asrApiKey := v \<rparr>
      else if field = ''asrModel'' then a\<lparr> asrModel := v \<rparr>
      else if field = ''asrLanguage'' then a\<lparr> asrLanguage := v \<rparr>
      else a)"

definition App_handleSingleSubmit ::
  "(rat \<Rightarrow> string) \<Rightarrow> http_outcome \<Rightarrow> app_state \<Rightarrow> string proc_state
     \<Rightarrow> string proc_state \<times> request list" where
  "App_handleSingleSubmit numberToString out a p =
     (if length (audioFiles a) \<noteq> 1 then (p, [])
      else hook_handleSingleSubmit numberToString out (buildFormData a False) p)"

definition App_handleMultipleSubmit ::
  "(rat \<Rightarrow> string) \<Rightarrow> http_outcome \<Rightarrow> app_state \<Rightarrow> string proc_state
     \<Rightarrow> string proc_state \<times> request list" where
  "App_handleMultipleSubmit numberToString out a p =
     (if length (audioFiles a) = 0 then (p, [])
      else hook_handleMultipleSubmit numberToString out (buildFormData a True) p)"

section \<open>The monolithic App\<close>

text \<open>
  The monolithic \<open>App\<close> holds form and processing cells itself and posts with axios
  directly. Its user-facing texts are Chinese string literals; they are the fields of
  \<open>texts\<close> here.
\<close>

record texts =
  selectSingleFile :: string
  selectFiles :: string
  maxFilesExceeded :: string
  processingFailed :: string
  batchProcessingFailed :: string

text \<open>The part of both forms after the files.\<close>

definition mono_formTail :: "'a form_state_scheme \<Rightarrow> form_data \<Rightarrow> form_data" where
  "mono_formTail a fd0 =
     (let fd1 = fd_append fd0 ''asr_method'' (FText (asrMethod a));
          fd2 = fd_append fd1 ''output_formats'' (FText (js_join '','' (outputFormats a)))
      in if showAdvancedOptions a then
           (let fd3 = fd_append fd2 ''min_speech_duration'' (FNum (minSpeechDuration a));
                fd4 = fd_append fd3 ''min_silence_duration'' (FNum (minSilenceDuration a));
                fd5 = (if asrApiUrl a \<noteq> [] then fd_append fd4 ''asr_api_url'' (FText (asrApiUrl a))
                       else fd4);
                fd6 = (if asrApiKey a \<noteq> [] then fd_append fd5 ''asr_api_key'' (FText (asrApiKey a))
                       else fd5)
            in if asrModel a \<noteq> [] then fd_append fd6 ''asr_model'' (FText (asrModel a)) else fd6)
         else fd2)"

definition mono_singleForm :: "'a form_state_scheme \<Rightarrow> form_data" where
  "mono_singleForm a =
     mono_formTail a
       (fd_append [] ''audio_file''
          (case audioFiles a of f # fs \<Rightarrow> FFile f | [] \<Rightarrow> FText ''undefined''))"

definition mono_multipleForm :: "'a form_state_scheme \<Rightarrow> form_data" where
  "mono_multipleForm a =
     mono_formTail a (foldl (\<lambda>fd f. fd_append fd ''audio_files'' (FFile f)) [] (audioFiles a))"

definition mono_handleSingleSubmit ::
  "texts \<Rightarrow> http_outcome \<Rightarrow> 'a form_state_scheme \<Rightarrow> jsval proc_state
     \<Rightarrow> jsval proc_state \<times> request list" where
  "mono_handleSingleSubmit L out a p =
     (if length (audioFiles a) \<noteq> 1 then (p\<lparr> error := Some (JStr (selectSingleFile L)) \<rparr>, [])
      else
        (let p1 = p\<lparr> isProcessing := True, error := None, result := None,
                      multiFileResult := None \<rparr>;
             formData = mono_singleForm a;
             p2 = (case out of
                     Resolved data \<Rightarrow> p1\<lparr> result := Some data \<rparr>
                   | Rejected detail \<Rightarrow>
                       p1\<lparr> error := Some (js_or detail (JStr (processingFailed L))) \<rparr>)
         in (p2\<lparr> isProcessing := False \<rparr>,
             [Post ''http://localhost:8000/api/v1/asr/process'' formData])))"

definition mono_handleMultipleSubmit ::
  "texts \<Rightarrow> http_outcome \<Rightarrow> 'a form_state_scheme \<Rightarrow> jsval proc_state
     \<Rightarrow> jsval proc_state \<times> request list" where
  "mono_handleMultipleSubmit L out a p =
     (if length (audioFiles a) = 0 then (p\<lparr> error := Some (JStr (selectFiles L)) \<rparr>, [])
      else if length (audioFiles a) > 10 then (p\<lparr> error := Some (JStr (maxFilesExceeded L)) \<rparr>, [])
      else
        (let p1 = p\<lparr> isProcessing := True, error := None, result := None,
                      multiFileResult := None \<rparr>;
             formData = mono_multipleForm a;
             p2 = (case out of
                     Resolved data \<Rightarrow> p1\<lparr> multiFileResult := Some data \<rparr>
                   | Rejected detail \<Rightarrow>
                       p1\<lparr> error := Some (js_or detail (JStr (batchProcessingFailed L))) \<rparr>)
         in (p2\<lparr> isProcessing := False \<rparr>,
             [Post ''http://localhost:8000/api/v1/asr/process-multiple'' formData])))"

text \<open>The \<open>onChange\<close> handlers of the two threshold inputs of the monolithic \<open>App\<close>.\<close>

definition mono_onChange_minSpeechDuration :: "string \<Rightarrow> 'a form_state_scheme \<Rightarrow> 'a form_state_scheme" where
  "mono_onChange_minSpeechDuration v a = a\<lparr> minSpeechDuration := num_or (parseInt v) 500 \<rparr>"

definition mono_onChange_minSilenceDuration :: "string \<Rightarrow> 'a form_state_scheme \<Rightarrow> 'a form_state_scheme" where
  "mono_onChange_minSilenceDuration v a = a\<lparr> minSilenceDuration := num_or (parseInt v) 500 \<rparr>"

section \<open>Example inputs\<close>

subsection \<open>Example messages\<close>

definition ex_clock :: clock where
  "ex_clock = \<lparr> now_id = 1700000000000, now_time = ''10:15:00'' \<rparr>"

definition ex_progress_msg :: ws_message where
  "ex_progress_msg = \<lparr> d_type = JStr ''progress'', d_progress = JNum 40,
     d_step = JStr ''transcription'', d_message = JStr ''Transcribing'',
     d_details = JUndefined, d_level = JUndefined \<rparr>"

definition ex_completion_msg :: ws_message where
  "ex_completion_msg = \<lparr> d_type = JStr ''completion'', d_progress = JUndefined,
     d_step = JUndefined, d_message = JUndefined, d_details = JUndefined,
     d_level = JUndefined \<rparr>"

definition ex_log_msg :: ws_message where
  "ex_log_msg = \<lparr> d_type = JStr ''log'', d_progress = JUndefined, d_step = JUndefined,
     d_message = JStr ''segment 3 failed'', d_details = JObj [(''segment'', JNum 3)],
     d_level = JStr ''warning'' \<rparr>"

definition ex_panel :: panel_state where
  "ex_panel = handleWebSocketMessage ex_clock ex_progress_msg panel_init"

subsection \<open>Example states of the form\<close>

definition ex_texts :: texts where
  "ex_texts = \<lparr> selectSingleFile = ''select a single file'', selectFiles = ''select files'',
     maxFilesExceeded = ''at most 10 files'', processingFailed = ''processing failed'',
     batchProcessingFailed = ''batch processing failed'' \<rparr>"

definition ex_eleven_files :: "upload list" where
  "ex_eleven_files = [File ''01.mp3'', File ''02.mp3'', File ''03.mp3'', File ''04.mp3'',
     File ''05.mp3'', File ''06.mp3'', File ''07.mp3'', File ''08.mp3'', File ''09.mp3'',
     File ''10.mp3'', File ''11.mp3'']"

definition ex_one_file :: app_state where
  "ex_one_file = setAudioFiles [File ''talk.mp3''] app_init"

definition ex_panel_open :: app_state where
  "ex_panel_open = onToggleAdvancedOptions ex_one_file"

definition ex_typed_threshold :: app_state where
  "ex_typed_threshold = handleVadChange ''minSpeechDuration'' ''99999'' ex_panel_open"

definition ex_mono_one_file :: form_state where
  "ex_mono_one_file = setAudioFiles [File ''talk.mp3''] mono_init"

definition ex_mono_panel_open :: form_state where
  "ex_mono_panel_open = onToggleAdvancedOptions ex_mono_one_file"

definition ex_eleven :: app_state where
  "ex_eleven = setAudioFiles ex_eleven_files app_init"

definition ex_mono_eleven :: form_state where
  "ex_mono_eleven = setAudioFiles ex_eleven_files mono_init"

text \<open>The detail of a validation error as FastAPI replies it (status 422).\<close>

definition ex_validation_detail :: jsval where
  "ex_validation_detail =
     JArr [JObj [(''loc'', JArr [JStr ''body'', JStr ''media_file'']),
                 (''msg'', JStr ''field required''),
                 (''type'', JStr ''value_error.missing'')]]"

definition ex_selected_custom :: app_state where
  "ex_selected_custom = app_init\<lparr> asrMethod := ''custom'' \<rparr>"

section \<open>Properties of the progress panel\<close>

lemma slice_last_length: "length (slice_last n xs) \<le> n"
  by (simp add: slice_last_def)

lemma slice_last_short: "length xs \<le> n \<Longrightarrow> slice_last n xs = xs"
  by (simp add: slice_last_def)

lemma slice_last_snoc:
  assumes "0 < n"
  shows "slice_last n (slice_last n xs @ [x]) = slice_last n (xs @ [x])"
proof (cases "length xs \<le> n")
  case True
  then show ?thesis by (simp add: slice_last_short)
next
  case False
  then have len: "n < length xs" by simp
  from len assms show ?thesis
    by (simp add: slice_last_def Suc_diff_le less_imp_le)
qed

lemma addLogs_snoc:
  "addLogs (es @ [(c, lv, msg, det)]) s = addLog c lv msg det (addLogs es s)"
  by (induction es s rule: addLogs.induct) simp_all

lemma addLogs_logs:
  assumes "length (logs s) \<le> 100"
  shows "logs (addLogs es s) = slice_last 100 (logs s @ map entryOf es)"
proof (induction es rule: rev_induct)
  case Nil
  from assms show ?case by (simp add: slice_last_short)
next
  case (snoc e es)
  obtain c lv msg det where e: "e = (c, lv, msg, det)" by (cases e) auto
  have eo: "entryOf e = logEntry c lv msg det" by (simp add: e entryOf_def)
  have "logs (addLogs (es @ [e]) s)
          = slice_last 100 (slice_last 100 (logs s @ map entryOf es) @ [logEntry c lv msg det])"
    by (simp add: e addLogs_snoc addLog_def snoc.IH)
  also have "\<dots> = slice_last 100 ((logs s @ map entryOf es) @ [logEntry c lv msg det])"
    by (rule slice_last_snoc) simp
  finally show ?case by (simp add: eo)
qed

lemma handleStream_append:
  "handleStream (xs @ ys) s = handleStream ys (handleStream xs s)"
  by (induction xs s rule: handleStream.induct) simp_all

lemma addLog_frame:
  "progress (addLog c lv msg det s) = progress s"
  "currentStep (addLog c lv msg det s) = currentStep s"
  "currentMessage (addLog c lv msg det s) = currentMessage s"
  "stats (addLog c lv msg det s) = stats s"
  "isConnected (addLog c lv msg det s) = isConnected s"
  "connectionError (addLog c lv msg det s) = connectionError s"
  by (simp_all add: addLog_def)

lemma addLog_logs_bound: "length (logs (addLog c lv msg det s)) \<le> 100"
  by (simp add: addLog_def slice_last_length)

lemma handleWebSocketMessage_logs_bound:
  "length (logs s) \<le> 100 \<Longrightarrow> length (logs (handleWebSocketMessage c d s)) \<le> 100"
  by (simp add: handleWebSocketMessage_def Let_def addLog_logs_bound)

lemma handleStream_logs_bound:
  "length (logs s) \<le> 100 \<Longrightarrow> length (logs (handleStream evs s)) \<le> 100"
  by (induction evs s rule: handleStream.induct)
     (simp_all add: handleWebSocketMessage_logs_bound)

subsection \<open>Completion\<close>

text \<open>
  C3: on every progress stream, handling a \<open>completion\<close> event leaves the displayed
  progress at exactly 100 and the current step at \<open>completion\<close>, whatever the events
  before it carried and whatever state the panel was in.
\<close>

theorem completion_sets_progress_100:
  assumes "d_type d = JStr ''completion''"
  shows "progress (handleStream (evs @ [(c, d)]) s) = JNum 100
       \<and> currentStep (handleStream (evs @ [(c, d)]) s) = JStr ''completion''"
  using assms by (simp add: handleStream_append handleWebSocketMessage_def)

theorem completion_sets_progress_100_witness:
  "d_type ex_completion_msg = JStr ''completion''
   \<and> progress (handleStream [(ex_clock, ex_progress_msg)] panel_init) = JNum 40
   \<and> progress (handleStream ([(ex_clock, ex_progress_msg)] @ [(ex_clock, ex_completion_msg)])
        panel_init) = JNum 100
   \<and> currentStep (handleStream ([(ex_clock, ex_progress_msg)] @ [(ex_clock, ex_completion_msg)])
        panel_init) = JStr ''completion''"
proof -
  have h: "d_type ex_completion_msg = JStr ''completion''"
    by (simp add: ex_completion_msg_def)
  have p: "progress (handleStream [(ex_clock, ex_progress_msg)] panel_init) = JNum 40"
    by (simp add: handleWebSocketMessage_def ex_progress_msg_def panel_init_def js_or_def
        addLog_frame Let_def)
  from h p completion_sets_progress_100 [OF h, of "[(ex_clock, ex_progress_msg)]" ex_clock panel_init]
  show ?thesis by simp
qed

subsection \<open>Log messages\<close>

text \<open>
  C7: a message of type \<open>log\<close> adds exactly one entry to the log list, the entry built
  from the message's level, message and details (a message without details gives the
  entry the details \<open>null\<close>); the list is then cut to its last 100 entries, so below
  the cap the new list is the old one with that entry appended. The progress
  percentage, the current step and the current message keep their values, and so do the
  statistics and the connection cells.
\<close>

theorem log_message_frame:
  assumes "d_type d = JStr ''log''"
  shows "logs (handleWebSocketMessage c d s)
           = slice_last 100 (logs s @ [logEntry c (d_level d) (d_message d) (d_details d)])
       \<and> (length (logs s) < 100 \<longrightarrow>
            logs (handleWebSocketMessage c d s)
              = logs s @ [logEntry c (d_level d) (d_message d) (d_details d)])
       \<and> last (logs (handleWebSocketMessage c d s))
           = logEntry c (d_level d) (d_message d) (d_details d)
       \<and> level (logEntry c (d_level d) (d_message d) (d_details d)) = d_level d
       \<and> message (logEntry c (d_level d) (d_message d) (d_details d)) = d_message d
       \<and> details (logEntry c (d_level d) (d_message d) (d_details d))
           = (if d_details d = JUndefined then JNull else d_details d)
       \<and> progress (handleWebSocketMessage c d s) = progress s
       \<and> currentStep (handleWebSocketMessage c d s) = currentStep s
       \<and> currentMessage (handleWebSocketMessage c d s) = currentMessage s
       \<and> stats (handleWebSocketMessage c d s) = stats s
       \<and> isConnected (handleWebSocketMessage c d s) = isConnected s
       \<and> connectionError (handleWebSocketMessage c d s) = connectionError s"
proof -
  let ?e = "logEntry c (d_level d) (d_message d) (d_details d)"
  from assms have h: "handleWebSocketMessage c d s = addLog c (d_level d) (d_message d) (d_details d) s"
    by (simp add: handleWebSocketMessage_def)
  have l: "logs (handleWebSocketMessage c d s) = slice_last 100 (logs s @ [?e])"
    by (simp add: h addLog_def)
  have a: "length (logs s) < 100 \<longrightarrow> logs (handleWebSocketMessage c d s) = logs s @ [?e]"
    by (simp add: l slice_last_short)
  have "slice_last 100 (logs s @ [?e]) \<noteq> []"
    by (simp add: slice_last_def)
  then have t: "last (logs (handleWebSocketMessage c d s)) = ?e"
    by (simp add: l slice_last_def last_drop)
  have e: "level ?e = d_level d" "message ?e = d_message d"
    "details ?e = (if d_details d = JUndefined then JNull else d_details d)"
    by (simp_all add: logEntry_def)
  from l a t e show ?thesis by (simp add: h addLog_frame)
qed

theorem log_message_frame_witness:
  "d_type ex_log_msg = JStr ''log''
   \<and> logs (handleWebSocketMessage ex_clock ex_log_msg ex_panel)
       = logs ex_panel @ [logEntry ex_clock (JStr ''warning'') (JStr ''segment 3 failed'')
                            (JObj [(''segment'', JNum 3)])]
   \<and> length (logs ex_panel) = 1
   \<and> progress (handleWebSocketMessage ex_clock ex_log_msg ex_panel) = JNum 40
   \<and> currentStep (handleWebSocketMessage ex_clock ex_log_msg ex_panel) = JStr ''transcription''
   \<and> currentMessage (handleWebSocketMessage ex_clock ex_log_msg ex_panel) = JStr ''Transcribing''"
proof -
  have h: "d_type ex_log_msg = JStr ''log''"
    by (simp add: ex_log_msg_def)
  have p: "progress ex_panel = JNum 40" "currentStep ex_panel = JStr ''transcription''"
    "currentMessage ex_panel = JStr ''Transcribing''" "length (logs ex_panel) = 1"
    by (simp_all add: ex_panel_def handleWebSocketMessage_def ex_progress_msg_def
        panel_init_def js_or_def addLog_def slice_last_def Let_def)
  have f: "d_level ex_log_msg = JStr ''warning''" "d_message ex_log_msg = JStr ''segment 3 failed''"
    "d_details ex_log_msg = JObj [(''segment'', JNum 3)]"
    by (simp_all add: ex_log_msg_def)
  from log_message_frame [OF h, of ex_clock ex_panel] h p f show ?thesis
    by (simp add: slice_last_def)
qed

subsection \<open>The cap on the log list\<close>

text \<open>
  C8: after any sequence of log additions to the panel's initially empty log list, the
  list holds at most 100 entries, and they are the entries added last, in the order in
  which they were added: the list of all entries added, without its first
  \<open>length - 100\<close> elements. The bound also holds after any stream of messages.
\<close>

theorem logs_keep_last_100:
  "length (logs (addLogs es panel_init)) \<le> 100
   \<and> logs (addLogs es panel_init) = drop (length es - 100) (map entryOf es)
   \<and> length (logs (handleStream evs panel_init)) \<le> 100"
proof -
  have i: "length (logs panel_init) \<le> 100" by (simp add: panel_init_def)
  then have "logs (addLogs es panel_init) = slice_last 100 (logs panel_init @ map entryOf es)"
    by (rule addLogs_logs)
  then have "logs (addLogs es panel_init) = drop (length es - 100) (map entryOf es)"
    by (simp add: panel_init_def slice_last_def)
  with handleStream_logs_bound [OF i] show ?thesis by simp
qed

section \<open>Properties of the form\<close>

subsection \<open>Form data\<close>

lemma fd_getAll_Nil: "fd_getAll [] k = []"
  by (simp add: fd_getAll_def)

lemma fd_getAll_append:
  "fd_getAll (fd_append fd k v) k' = fd_getAll fd k' @ (if k = k' then [v] else [])"
  by (simp add: fd_getAll_def fd_append_def)

lemma fd_has_Nil: "fd_has [] k = False"
  by (simp add: fd_has_def)

lemma fd_has_append: "fd_has (fd_append fd k v) k' = (fd_has fd k' \<or> k = k')"
  by (auto simp add: fd_has_def fd_append_def)

lemma fd_getAll_audio_files:
  "fd_getAll (foldl (\<lambda>fd f. fd_append fd ''audio_files'' (FFile f)) acc fs) k
     = fd_getAll acc k @ (if k = ''audio_files'' then map FFile fs else [])"
  by (induction fs arbitrary: acc) (simp_all add: fd_getAll_append)

lemma fd_has_audio_files:
  "fd_has (foldl (\<lambda>fd f. fd_append fd ''audio_files'' (FFile f)) acc fs) k
     = (fd_has acc k \<or> (k = ''audio_files'' \<and> fs \<noteq> []))"
  by (induction fs arbitrary: acc) (auto simp add: fd_has_append)

subsection \<open>The format updater\<close>

lemma formatUpdater_member: "(f \<in> set (formatUpdater f prev)) = (f \<notin> set prev)"
  by (simp add: formatUpdater_def)

lemma formatUpdater_twice:
  "f \<notin> set prev \<Longrightarrow> formatUpdater f (formatUpdater f prev) = prev"
  by (auto simp add: formatUpdater_def filter_id_conv)

lemma formatUpdater_distinct: "distinct prev \<Longrightarrow> distinct (formatUpdater f prev)"
  by (simp add: formatUpdater_def)

lemma formatUpdater_subset:
  "set prev \<subseteq> A \<Longrightarrow> f \<in> A \<Longrightarrow> set (formatUpdater f prev) \<subseteq> A"
  by (auto simp add: formatUpdater_def)

lemma formatChanges_invariant:
  "distinct (outputFormats a) \<Longrightarrow> set (outputFormats a) \<subseteq> A \<Longrightarrow> set fs \<subseteq> A
   \<Longrightarrow> distinct (outputFormats (formatChanges fs a)) \<and> set (outputFormats (formatChanges fs a)) \<subseteq> A"
proof (induction fs arbitrary: a)
  case Nil
  then show ?case by simp
next
  case (Cons f fs)
  have "distinct (outputFormats (handleFormatChange f a))"
    using Cons.prems(1) by (simp add: handleFormatChange_def formatUpdater_distinct)
  moreover have "set (outputFormats (handleFormatChange f a)) \<subseteq> A"
    using Cons.prems(2,3) by (simp add: handleFormatChange_def formatUpdater_subset)
  moreover have "set fs \<subseteq> A" using Cons.prems(3) by simp
  ultimately show ?case using Cons.IH by simp
qed

subsection \<open>Fields of the forms\<close>

lemma buildFormData_output_formats:
  "fd_getAll (buildFormData a m) ''output_formats'' = [FText (js_join '','' (outputFormats a))]"
  by (simp add: buildFormData_def Let_def fd_getAll_append fd_getAll_audio_files fd_getAll_Nil)

lemma mono_formTail_output_formats:
  "fd_getAll fd0 ''output_formats'' = [] \<Longrightarrow>
   fd_getAll (mono_formTail a fd0) ''output_formats'' = [FText (js_join '','' (outputFormats a))]"
  by (simp add: mono_formTail_def Let_def fd_getAll_append)

lemma mono_singleForm_output_formats:
  "fd_getAll (mono_singleForm a) ''output_formats'' = [FText (js_join '','' (outputFormats a))]"
  by (simp add: mono_singleForm_def mono_formTail_output_formats fd_getAll_append fd_getAll_Nil)

lemma mono_multipleForm_output_formats:
  "fd_getAll (mono_multipleForm a) ''output_formats'' = [FText (js_join '','' (outputFormats a))]"
  by (simp add: mono_multipleForm_def mono_formTail_output_formats fd_getAll_audio_files
      fd_getAll_Nil)

lemma buildFormData_has:
  "fd_has (buildFormData a m) ''min_speech_duration'' = showAdvancedOptions a"
  "fd_has (buildFormData a m) ''min_silence_duration'' = showAdvancedOptions a"
  "fd_has (buildFormData a m) ''language'' = showAdvancedOptions a"
  "fd_has (buildFormData a m) ''asr_api_url'' = (showAdvancedOptions a \<and> asrApiUrl a \<noteq> [])"
  "fd_has (buildFormData a m) ''asr_api_key'' = (showAdvancedOptions a \<and> asrApiKey a \<noteq> [])"
  "fd_has (buildFormData a m) ''asr_model'' = (showAdvancedOptions a \<and> asrModel a \<noteq> [])"
  by (simp_all add: buildFormData_def Let_def fd_has_append fd_has_audio_files fd_has_Nil)

lemma mono_formTail_has:
  "fd_has (mono_formTail a fd0) ''min_speech_duration''
     = (fd_has fd0 ''min_speech_duration'' \<or> showAdvancedOptions a)"
  "fd_has (mono_formTail a fd0) ''min_silence_duration''
     = (fd_has fd0 ''min_silence_duration'' \<or> showAdvancedOptions a)"
  "fd_has (mono_formTail a fd0) ''language'' = fd_has fd0 ''language''"
  "fd_has (mono_formTail a fd0) ''asr_api_url''
     = (fd_has fd0 ''asr_api_url'' \<or> showAdvancedOptions a \<and> asrApiUrl a \<noteq> [])"
  "fd_has (mono_formTail a fd0) ''asr_api_key''
     = (fd_has fd0 ''asr_api_key'' \<or> showAdvancedOptions a \<and> asrApiKey a \<noteq> [])"
  "fd_has (mono_formTail a fd0) ''asr_model''
     = (fd_has fd0 ''asr_model'' \<or> showAdvancedOptions a \<and> asrModel a \<noteq> [])"
  by (simp_all add: mono_formTail_def Let_def fd_has_append)

subsection \<open>Output formats\<close>

text \<open>
  C9: toggling a format \<open>f\<close> in a duplicate-free list \<open>prev\<close> gives a list that contains
  \<open>f\<close> exactly when \<open>prev\<close> did not; when \<open>f\<close> was absent, toggling it twice gives
  \<open>prev\<close> back. The same holds of the cell \<open>outputFormats\<close> under
  \<open>handleFormatChange\<close>.
\<close>

theorem format_toggle:
  assumes "distinct prev"
  shows "(f \<in> set (formatUpdater f prev)) = (f \<notin> set prev)
       \<and> (f \<notin> set prev \<longrightarrow> formatUpdater f (formatUpdater f prev) = prev)
       \<and> (outputFormats a = prev \<longrightarrow>
            (f \<in> set (outputFormats (handleFormatChange f a))) = (f \<notin> set prev)
            \<and> (f \<notin> set prev \<longrightarrow>
                 outputFormats (handleFormatChange f (handleFormatChange f a)) = prev))"
  by (simp add: formatUpdater_member formatUpdater_twice handleFormatChange_def)

theorem format_toggle_witness:
  "distinct [''srt'', ''vtt'']
   \<and> ''lrc'' \<notin> set [''srt'', ''vtt'']
   \<and> formatUpdater ''lrc'' [''srt'', ''vtt''] = [''srt'', ''vtt'', ''lrc'']
   \<and> formatUpdater ''lrc'' (formatUpdater ''lrc'' [''srt'', ''vtt'']) = [''srt'', ''vtt'']
   \<and> ''srt'' \<notin> set (formatUpdater ''srt'' [''srt'', ''vtt''])"
proof -
  have d: "distinct [''srt'', ''vtt'']" by simp
  have n: "''lrc'' \<notin> set [''srt'', ''vtt'']" by simp
  have m: "''srt'' \<in> set [''srt'', ''vtt'']" by simp
  have e: "formatUpdater ''lrc'' [''srt'', ''vtt''] = [''srt'', ''vtt'', ''lrc'']"
    by (simp add: formatUpdater_def)
  from format_toggle [OF d, of "''lrc''"] n
  have t: "formatUpdater ''lrc'' (formatUpdater ''lrc'' [''srt'', ''vtt'']) = [''srt'', ''vtt'']"
    by blast
  from format_toggle [OF d, of "''srt''"] m
  have s: "''srt'' \<notin> set (formatUpdater ''srt'' [''srt'', ''vtt''])"
    by blast
  from d n e t s show ?thesis by blast
qed

text \<open>
  C6: every form the handlers build carries exactly one \<open>output_formats\<close> field, the
  selected formats joined by commas, and every request a submit handler issues has such
  a form as its body. Starting from the default selection and changing it only by
  \<open>handleFormatChange\<close> on formats of \<open>OUTPUT_FORMATS\<close>, the selection is always a
  duplicate-free list of formats of \<open>OUTPUT_FORMATS\<close>.
\<close>

theorem output_formats_field:
  assumes "set fs \<subseteq> set OUTPUT_FORMATS"
  shows "distinct (outputFormats (formatChanges fs app_init))
       \<and> set (outputFormats (formatChanges fs app_init)) \<subseteq> {''srt'', ''vtt'', ''lrc'', ''txt''}
       \<and> distinct (outputFormats (formatChanges fs mono_init))
       \<and> set (outputFormats (formatChanges fs mono_init)) \<subseteq> {''srt'', ''vtt'', ''lrc'', ''txt''}
       \<and> fd_getAll (buildFormData a m) ''output_formats''
           = [FText (js_join '','' (outputFormats a))]
       \<and> fd_getAll (mono_singleForm b) ''output_formats''
           = [FText (js_join '','' (outputFormats b))]
       \<and> fd_getAll (mono_multipleForm b) ''output_formats''
           = [FText (js_join '','' (outputFormats b))]
       \<and> list_all (\<lambda>r. r = Post ''/asr/process'' (buildFormData a False))
            (snd (App_handleSingleSubmit nts out a p))
       \<and> list_all (\<lambda>r. r = Post ''/asr/process-multiple'' (buildFormData a True))
            (snd (App_handleMultipleSubmit nts out a p))
       \<and> list_all (\<lambda>r. r = Post ''http://localhost:8000/api/v1/asr/process'' (mono_singleForm b))
            (snd (mono_handleSingleSubmit L out b q))
       \<and> list_all (\<lambda>r. r = Post ''http://localhost:8000/api/v1/asr/process-multiple''
                              (mono_multipleForm b))
            (snd (mono_handleMultipleSubmit L out b q))"
proof -
  let ?A = "set OUTPUT_FORMATS"
  have A: "?A = {''srt'', ''vtt'', ''lrc'', ''txt''}"
    by (simp add: OUTPUT_FORMATS_def)
  have "distinct (outputFormats app_init)" "set (outputFormats app_init) \<subseteq> ?A"
    by (simp_all add: app_init_def DEFAULT_OUTPUT_FORMATS_def OUTPUT_FORMATS_def)
  from formatChanges_invariant [OF this assms]
  have i1: "distinct (outputFormats (formatChanges fs app_init))"
    "set (outputFormats (formatChanges fs app_init)) \<subseteq> {''srt'', ''vtt'', ''lrc'', ''txt''}"
    unfolding A by simp_all
  have "distinct (outputFormats mono_init)" "set (outputFormats mono_init) \<subseteq> ?A"
    by (simp_all add: mono_init_def OUTPUT_FORMATS_def)
  from formatChanges_invariant [OF this assms]
  have i2: "distinct (outputFormats (formatChanges fs mono_init))"
    "set (outputFormats (formatChanges fs mono_init)) \<subseteq> {''srt'', ''vtt'', ''lrc'', ''txt''}"
    unfolding A by simp_all
  have r1: "list_all (\<lambda>r. r = Post ''/asr/process'' (buildFormData a False))
              (snd (App_handleSingleSubmit nts out a p))"
    by (simp add: App_handleSingleSubmit_def hook_handleSingleSubmit_def Let_def)
  have r2: "list_all (\<lambda>r. r = Post ''/asr/process-multiple'' (buildFormData a True))
              (snd (App_handleMultipleSubmit nts out a p))"
    by (simp add: App_handleMultipleSubmit_def hook_handleMultipleSubmit_def Let_def)
  have r3: "list_all (\<lambda>r. r = Post ''http://localhost:8000/api/v1/asr/process'' (mono_singleForm b))
              (snd (mono_handleSingleSubmit L out b q))"
    by (simp add: mono_handleSingleSubmit_def Let_def)
  have r4: "list_all (\<lambda>r. r = Post ''http://localhost:8000/api/v1/asr/process-multiple''
                              (mono_multipleForm b))
              (snd (mono_handleMultipleSubmit L out b q))"
    by (simp add: mono_handleMultipleSubmit_def Let_def)
  from i1 i2 r1 r2 r3 r4 show ?thesis
    by (simp only: buildFormData_output_formats mono_singleForm_output_formats
        mono_multipleForm_output_formats simp_thms)
qed

theorem output_formats_field_witness:
  "set [''vtt'', ''txt''] \<subseteq> set OUTPUT_FORMATS
   \<and> outputFormats (formatChanges [''vtt'', ''txt''] ex_one_file) = [''srt'', ''vtt'', ''txt'']
   \<and> distinct (outputFormats (formatChanges [''vtt'', ''txt''] app_init))
   \<and> fd_getAll (buildFormData (formatChanges [''vtt'', ''txt''] ex_one_file) False)
        ''output_formats'' = [FText ''srt,vtt,txt'']
   \<and> snd (App_handleSingleSubmit (\<lambda>n. ''0'') (Resolved (Response ''done''))
            (formatChanges [''vtt'', ''txt''] ex_one_file) proc_init)
       = [Post ''/asr/process'' (buildFormData (formatChanges [''vtt'', ''txt''] ex_one_file) False)]"
proof -
  have h: "set [''vtt'', ''txt''] \<subseteq> set OUTPUT_FORMATS"
    by (simp add: OUTPUT_FORMATS_def)
  have e: "outputFormats (formatChanges [''vtt'', ''txt''] ex_one_file) = [''srt'', ''vtt'', ''txt'']"
    by (simp add: ex_one_file_def setAudioFiles_def handleFormatChange_def formatUpdater_def
        app_init_def DEFAULT_OUTPUT_FORMATS_def)
  have j: "js_join '','' [''srt'', ''vtt'', ''txt''] = ''srt,vtt,txt''"
    by simp
  have s: "snd (App_handleSingleSubmit (\<lambda>n. ''0'') (Resolved (Response ''done''))
            (formatChanges [''vtt'', ''txt''] ex_one_file) proc_init)
       = [Post ''/asr/process'' (buildFormData (formatChanges [''vtt'', ''txt''] ex_one_file) False)]"
    by (simp add: App_handleSingleSubmit_def hook_handleSingleSubmit_def Let_def
        ex_one_file_def setAudioFiles_def handleFormatChange_def)
  from output_formats_field [OF h, of "formatChanges [''vtt'', ''txt''] ex_one_file" False]
  have "distinct (outputFormats (formatChanges [''vtt'', ''txt''] app_init))"
    and "fd_getAll (buildFormData (formatChanges [''vtt'', ''txt''] ex_one_file) False)
           ''output_formats''
         = [FText (js_join '','' (outputFormats (formatChanges [''vtt'', ''txt''] ex_one_file)))]"
    by blast+
  with h e j s show ?thesis by simp
qed

subsection \<open>Advanced options in the form\<close>

text \<open>
  C10, as the code has it. In the form \<open>buildFormData\<close> builds, the two thresholds
  and the language are present exactly when the advanced-options panel is open; each of
  the endpoint, credential and model fields is present exactly when the panel is open
  and its cell is not the empty string. The forms of the monolithic \<open>App\<close> follow the
  same rule for thresholds, endpoint, credential and model, and never carry a language.
  With the panel closed none of these fields is in any form.
\<close>

theorem advanced_fields_presence:
  "fd_has (buildFormData a m) ''min_speech_duration'' = showAdvancedOptions a
   \<and> fd_has (buildFormData a m) ''min_silence_duration'' = showAdvancedOptions a
   \<and> fd_has (buildFormData a m) ''language'' = showAdvancedOptions a
   \<and> fd_has (buildFormData a m) ''asr_api_url'' = (showAdvancedOptions a \<and> asrApiUrl a \<noteq> [])
   \<and> fd_has (buildFormData a m) ''asr_api_key'' = (showAdvancedOptions a \<and> asrApiKey a \<noteq> [])
   \<and> fd_has (buildFormData a m) ''asr_model'' = (showAdvancedOptions a \<and> asrModel a \<noteq> [])
   \<and> fd_has (mono_singleForm b) ''min_speech_duration'' = showAdvancedOptions b
   \<and> fd_has (mono_singleForm b) ''min_silence_duration'' = showAdvancedOptions b
   \<and> fd_has (mono_singleForm b) ''asr_api_url'' = (showAdvancedOptions b \<and> asrApiUrl b \<noteq> [])
   \<and> fd_has (mono_singleForm b) ''asr_api_key'' = (showAdvancedOptions b \<and> asrApiKey b \<noteq> [])
   \<and> fd_has (mono_singleForm b) ''asr_model'' = (showAdvancedOptions b \<and> asrModel b \<noteq> [])
   \<and> fd_has (mono_singleForm b) ''language'' = False
   \<and> fd_has (mono_multipleForm b) ''min_speech_duration'' = showAdvancedOptions b
   \<and> fd_has (mono_multipleForm b) ''min_silence_duration'' = showAdvancedOptions b
   \<and> fd_has (mono_multipleForm b) ''asr_api_url'' = (showAdvancedOptions b \<and> asrApiUrl b \<noteq> [])
   \<and> fd_has (mono_multipleForm b) ''asr_api_key'' = (showAdvancedOptions b \<and> asrApiKey b \<noteq> [])
   \<and> fd_has (mono_multipleForm b) ''asr_model'' = (showAdvancedOptions b \<and> asrModel b \<noteq> [])
   \<and> fd_has (mono_multipleForm b) ''language'' = False"
  by (simp add: buildFormData_has mono_singleForm_def mono_multipleForm_def mono_formTail_has
      fd_has_append fd_has_audio_files fd_has_Nil)

theorem advanced_fields_presence_witness:
  "showAdvancedOptions ex_panel_open
   \<and> fd_has (buildFormData ex_panel_open False) ''min_speech_duration''
   \<and> fd_has (buildFormData ex_panel_open False) ''language''
   \<and> \<not> fd_has (buildFormData ex_panel_open False) ''asr_api_key''
   \<and> \<not> showAdvancedOptions ex_one_file
   \<and> \<not> fd_has (buildFormData ex_one_file False) ''min_speech_duration''
   \<and> \<not> fd_has (buildFormData ex_one_file False) ''language''"
proof -
  have s: "showAdvancedOptions ex_panel_open" "\<not> showAdvancedOptions ex_one_file"
    "asrApiKey ex_panel_open = []"
    by (simp_all add: ex_panel_open_def onToggleAdvancedOptions_def ex_one_file_def
        setAudioFiles_def app_init_def)
  from advanced_fields_presence [of ex_panel_open False ex_mono_panel_open]
       advanced_fields_presence [of ex_one_file False ex_mono_panel_open] s
  show ?thesis by simp
qed

text \<open>
  The claim as stated fails: with the panel open and no endpoint entered, the form has
  no \<open>asr_api_url\<close> field; and the monolithic \<open>App\<close> sends no language with the panel open.
\<close>

theorem advanced_fields_counterexample:
  "showAdvancedOptions ex_panel_open
   \<and> \<not> fd_has (buildFormData ex_panel_open False) ''asr_api_url''
   \<and> \<not> fd_has (buildFormData ex_panel_open False) ''asr_api_key''
   \<and> \<not> fd_has (buildFormData ex_panel_open False) ''asr_model''
   \<and> showAdvancedOptions ex_mono_panel_open
   \<and> \<not> fd_has (mono_singleForm ex_mono_panel_open) ''language''"
  by (simp add: ex_panel_open_def onToggleAdvancedOptions_def ex_one_file_def
      setAudioFiles_def app_init_def buildFormData_has
      ex_mono_panel_open_def ex_mono_one_file_def mono_init_def
      mono_singleForm_def mono_formTail_has fd_has_append fd_has_Nil)

subsection \<open>Failure of a single-file request\<close>

lemma hook_handleSingleSubmit_rejected:
  "error (fst (hook_handleSingleSubmit nts (Rejected detail) fd p))
     = Some (js_toString nts (js_or detail (JStr ''Processing failed'')))"
  "result (fst (hook_handleSingleSubmit nts (Rejected detail) fd p)) = None"
  "multiFileResult (fst (hook_handleSingleSubmit nts (Rejected detail) fd p)) = None"
  "isProcessing (fst (hook_handleSingleSubmit nts (Rejected detail) fd p)) = False"
  "snd (hook_handleSingleSubmit nts (Rejected detail) fd p) = [Post ''/asr/process'' fd]"
  by (simp_all add: hook_handleSingleSubmit_def api_processSingleFile_def resetResults_def
      Let_def)

lemma hook_handleSingleSubmit_text_detail:
  "s \<noteq> [] \<Longrightarrow> error (fst (hook_handleSingleSubmit nts (Rejected (JStr s)) fd p)) = Some s"
  by (simp add: hook_handleSingleSubmit_rejected js_or_def)

lemma hook_handleSingleSubmit_no_detail:
  "\<not> truthy detail \<Longrightarrow>
   error (fst (hook_handleSingleSubmit nts (Rejected detail) fd p)) = Some ''Processing failed''"
  by (simp add: hook_handleSingleSubmit_rejected js_or_def)

lemma mono_handleSingleSubmit_rejected:
  assumes "length (audioFiles b) = 1"
  shows "error (fst (mono_handleSingleSubmit L (Rejected detail) b p))
           = Some (js_or detail (JStr (processingFailed L)))"
    and "result (fst (mono_handleSingleSubmit L (Rejected detail) b p)) = None"
    and "isProcessing (fst (mono_handleSingleSubmit L (Rejected detail) b p)) = False"
  using assms by (simp_all add: mono_handleSingleSubmit_def Let_def)

text \<open>
  C5 at a rejection whose detail is not a string: the list of error objects of a
  validation error. The result stays \<open>null\<close> and the processing flag ends \<open>false\<close>, but
  the failure reason is not what the error cell holds. \<open>api.js\<close> builds
  \<open>new Error(detail)\<close>, whose message is \<open>[object Object]\<close>, and the hook stores that
  message. The monolithic \<open>App\<close> stores the list itself in the cell it renders as text.
  For the detail \<open>[]\<close> the hook stores the empty string, which the error display treats
  as no error.
\<close>

theorem validation_error_reason_lost:
  "error (fst (hook_handleSingleSubmit nts (Rejected ex_validation_detail) fd proc_init))
     = Some ''[object Object]''
   \<and> error (fst (App_handleSingleSubmit nts (Rejected ex_validation_detail) ex_one_file proc_init))
       = Some ''[object Object]''
   \<and> result (fst (App_handleSingleSubmit nts (Rejected ex_validation_detail) ex_one_file
        proc_init)) = None
   \<and> isProcessing (fst (App_handleSingleSubmit nts (Rejected ex_validation_detail) ex_one_file
        proc_init)) = False
   \<and> error (fst (mono_handleSingleSubmit ex_texts (Rejected ex_validation_detail)
        ex_mono_one_file proc_init)) = Some ex_validation_detail
   \<and> error (fst (hook_handleSingleSubmit nts (Rejected (JArr [])) fd proc_init)) = Some ''''"
proof -
  have t: "truthy ex_validation_detail"
    "js_toString nts ex_validation_detail = ''[object Object]''"
    by (simp_all add: ex_validation_detail_def)
  have l: "length (audioFiles ex_one_file) = 1" "length (audioFiles ex_mono_one_file) = 1"
    by (simp_all add: ex_one_file_def ex_mono_one_file_def setAudioFiles_def)
  have h: "error (fst (hook_handleSingleSubmit nts (Rejected ex_validation_detail) fd proc_init))
     = Some ''[object Object]''" for fd
    using t by (simp add: hook_handleSingleSubmit_rejected js_or_def)
  have a: "App_handleSingleSubmit nts (Rejected ex_validation_detail) ex_one_file proc_init
     = hook_handleSingleSubmit nts (Rejected ex_validation_detail) (buildFormData ex_one_file False)
         proc_init"
    using l by (simp add: App_handleSingleSubmit_def)
  have m: "error (fst (mono_handleSingleSubmit ex_texts (Rejected ex_validation_detail)
        ex_mono_one_file proc_init)) = Some ex_validation_detail"
    using l t by (simp add: mono_handleSingleSubmit_rejected js_or_def)
  have e: "error (fst (hook_handleSingleSubmit nts (Rejected (JArr [])) fd proc_init)) = Some ''''"
    by (simp add: hook_handleSingleSubmit_rejected js_or_def)
  from h m e show ?thesis
    by (simp add: a hook_handleSingleSubmit_rejected)
qed

subsection \<open>Default method after the plugin list is fetched\<close>

text \<open>
  Whatever method is selected when the reply arrives, the fallback of the mount effect
  selects the first listed plugin, since it reads the \<open>asrMethod\<close> of the first render.
\<close>

lemma useEffect_mount_fallback:
  assumes "dm = None \<or> dm = Some [] \<or> (\<exists>x. dm = Some x \<and> x \<notin> set (first # rest))"
  shows "asrMethod (useEffect_mount (PluginsOk (first # rest) dm) a) = first"
  using assms
  by (auto simp add: useEffect_mount_def fetchAvailablePlugins_def app_init_def Let_def)

lemma useEffect_mount_overrides_selection:
  "asrMethod ex_selected_custom = ''custom''
   \<and> asrMethod (useEffect_mount (PluginsOk [''faster-whisper'', ''qwen-asr''] None)
        ex_selected_custom) = ''faster-whisper''"
  by (simp add: useEffect_mount_fallback ex_selected_custom_def)

text \<open>
  C4: let the returned list hold plugin names, none of them the empty string. After the
  list is fetched by the mount effect, the selected method is the backend's default
  whenever that default is a member of the returned list; otherwise, if the list is
  non-empty and no method was selected, it is the first listed plugin. The same holds of
  \<open>fetchAvailablePlugins\<close> called from any render, "no method selected" being what that
  render saw. The available plugins are the returned list.
\<close>

theorem fetch_selects_method:
  assumes "[] \<notin> set plugins"
  shows "(dm = Some d \<and> d \<in> set plugins \<longrightarrow>
            asrMethod (useEffect_mount (PluginsOk plugins dm) a) = d)
       \<and> ((dm = None \<or> (\<exists>x. dm = Some x \<and> x \<notin> set plugins))
            \<and> plugins = first # rest \<and> asrMethod a = [] \<longrightarrow>
            asrMethod (useEffect_mount (PluginsOk plugins dm) a) = first)
       \<and> (dm = Some d \<and> d \<in> set plugins \<longrightarrow>
            asrMethod (fetchAvailablePlugins (PluginsOk plugins dm) seen a) = d)
       \<and> ((dm = None \<or> (\<exists>x. dm = Some x \<and> x \<notin> set plugins))
            \<and> plugins = first # rest \<and> seen = [] \<longrightarrow>
            asrMethod (fetchAvailablePlugins (PluginsOk plugins dm) seen a) = first)
       \<and> availablePlugins (useEffect_mount (PluginsOk plugins dm) a) = plugins"
proof -
  have member: "asrMethod (fetchAvailablePlugins (PluginsOk plugins (Some d)) s a) = d"
    if "d \<in> set plugins" for s
  proof -
    from that assms have "d \<noteq> []" by auto
    with that show ?thesis
      by (simp add: fetchAvailablePlugins_def Let_def)
  qed
  have fallback: "asrMethod (fetchAvailablePlugins (PluginsOk plugins dm) [] a) = first"
    if "dm = None \<or> (\<exists>x. dm = Some x \<and> x \<notin> set plugins)" "plugins = first # rest"
    using that by (auto simp add: fetchAvailablePlugins_def Let_def)
  have avail: "availablePlugins (useEffect_mount (PluginsOk plugins dm) a) = plugins"
    by (simp add: useEffect_mount_def fetchAvailablePlugins_def Let_def
        split: option.split list.split)
  have init: "asrMethod app_init = []" by (simp add: app_init_def)
  from member fallback avail show ?thesis
    by (auto simp add: useEffect_mount_def init)
qed

theorem fetch_selects_method_witness:
  "[] \<notin> set [''faster-whisper'', ''qwen-asr'']
   \<and> ''qwen-asr'' \<in> set [''faster-whisper'', ''qwen-asr'']
   \<and> asrMethod (useEffect_mount
        (PluginsOk [''faster-whisper'', ''qwen-asr''] (Some ''qwen-asr'')) app_init) = ''qwen-asr''
   \<and> ''vosk'' \<notin> set [''faster-whisper'', ''qwen-asr'']
   \<and> asrMethod app_init = ''''
   \<and> asrMethod (useEffect_mount
        (PluginsOk [''faster-whisper'', ''qwen-asr''] (Some ''vosk'')) app_init) = ''faster-whisper''"
proof -
  have n: "[] \<notin> set [''faster-whisper'', ''qwen-asr'']" by simp
  have m: "''qwen-asr'' \<in> set [''faster-whisper'', ''qwen-asr'']"
    "''vosk'' \<notin> set [''faster-whisper'', ''qwen-asr'']" "asrMethod app_init = []"
    by (simp_all add: app_init_def)
  from fetch_selects_method [OF n, of "Some ''qwen-asr''" "''qwen-asr''" app_init
         "''faster-whisper''" "[''qwen-asr'']" "[]"] m
  have a: "asrMethod (useEffect_mount
        (PluginsOk [''faster-whisper'', ''qwen-asr''] (Some ''qwen-asr'')) app_init) = ''qwen-asr''"
    by simp
  from fetch_selects_method [OF n, of "Some ''vosk''" "''vosk''" app_init
         "''faster-whisper''" "[''qwen-asr'']" "[]"] m
  have b: "asrMethod (useEffect_mount
        (PluginsOk [''faster-whisper'', ''qwen-asr''] (Some ''vosk'')) app_init) = ''faster-whisper''"
    by simp
  from n m a b show ?thesis by simp
qed

subsection \<open>The cap on the number of files\<close>

lemma mono_handleMultipleSubmit_over_cap:
  "10 < length (audioFiles a) \<Longrightarrow>
   mono_handleMultipleSubmit L out a p = (p\<lparr> error := Some (JStr (maxFilesExceeded L)) \<rparr>, [])"
  by (auto simp add: mono_handleMultipleSubmit_def)

lemma mono_handleMultipleSubmit_within_cap:
  "1 \<le> length (audioFiles a) \<Longrightarrow> length (audioFiles a) \<le> 10 \<Longrightarrow>
   snd (mono_handleMultipleSubmit L out a p)
     = [Post ''http://localhost:8000/api/v1/asr/process-multiple'' (mono_multipleForm a)]"
  by (auto simp add: mono_handleMultipleSubmit_def Let_def)

lemma App_handleMultipleSubmit_any_count:
  "audioFiles a \<noteq> [] \<Longrightarrow>
   snd (App_handleMultipleSubmit nts out a p)
     = [Post ''/asr/process-multiple'' (buildFormData a True)]"
  by (simp add: App_handleMultipleSubmit_def hook_handleMultipleSubmit_def Let_def)

lemma buildFormData_audio_files:
  "fd_getAll (buildFormData a True) ''audio_files'' = map FFile (audioFiles a)"
  by (simp add: buildFormData_def Let_def fd_getAll_append fd_getAll_audio_files fd_getAll_Nil)

text \<open>
  C1 at eleven files. The monolithic \<open>App\<close> rejects the batch with the max-files text
  and issues no request. The refactored \<open>App\<close> has no check of the count: it posts all
  eleven files and sets no error.
\<close>

theorem batch_of_eleven_files:
  "length (audioFiles ex_eleven) = 11
   \<and> snd (App_handleMultipleSubmit nts (Resolved (Response ''ok'')) ex_eleven proc_init)
       = [Post ''/asr/process-multiple'' (buildFormData ex_eleven True)]
   \<and> length (fd_getAll (buildFormData ex_eleven True) ''audio_files'') = 11
   \<and> error (fst (App_handleMultipleSubmit nts (Resolved (Response ''ok'')) ex_eleven proc_init)) = None
   \<and> multiFileResult (fst (App_handleMultipleSubmit nts (Resolved (Response ''ok'')) ex_eleven
        proc_init)) = Some (Response ''ok'')
   \<and> length (audioFiles ex_mono_eleven) = 11
   \<and> mono_handleMultipleSubmit ex_texts (Resolved (Response ''ok'')) ex_mono_eleven proc_init
       = (proc_init\<lparr> error := Some (JStr ''at most 10 files'') \<rparr>, [])"
proof -
  have l: "length (audioFiles ex_eleven) = 11" "length (audioFiles ex_mono_eleven) = 11"
    by (simp_all add: ex_eleven_def ex_mono_eleven_def setAudioFiles_def ex_eleven_files_def)
  then have ne: "audioFiles ex_eleven \<noteq> []" by auto
  have e: "error (fst (App_handleMultipleSubmit nts (Resolved (Response ''ok'')) ex_eleven proc_init))
             = None"
    "multiFileResult (fst (App_handleMultipleSubmit nts (Resolved (Response ''ok'')) ex_eleven
        proc_init)) = Some (Response ''ok'')"
    using l by (simp_all add: App_handleMultipleSubmit_def hook_handleMultipleSubmit_def
        api_processMultipleFiles_def resetResults_def Let_def)
  have m: "mono_handleMultipleSubmit ex_texts (Resolved (Response ''ok'')) ex_mono_eleven proc_init
       = (proc_init\<lparr> error := Some (JStr ''at most 10 files'') \<rparr>, [])"
    using l by (simp add: mono_handleMultipleSubmit_over_cap ex_texts_def)
  from l e m show ?thesis
    by (simp add: App_handleMultipleSubmit_any_count [OF ne] buildFormData_audio_files)
qed

subsection \<open>Thresholds\<close>

lemma handleVadChange_stores:
  "minSpeechDuration (handleVadChange ''minSpeechDuration'' v a)
     = num_or (parseInt v) DEFAULT_MIN_SPEECH_DURATION"
  "minSilenceDuration (handleVadChange ''minSilenceDuration'' v a)
     = num_or (parseInt v) DEFAULT_MIN_SILENCE_DURATION"
  by (simp_all add: handleVadChange_def handleVadConfigChange_def)

lemma buildFormData_thresholds:
  "showAdvancedOptions a \<Longrightarrow>
   fd_getAll (buildFormData a m) ''min_speech_duration''
     = [FNum (num_or (Some (minSpeechDuration a)) DEFAULT_MIN_SPEECH_DURATION)]"
  "showAdvancedOptions a \<Longrightarrow>
   fd_getAll (buildFormData a m) ''min_silence_duration''
     = [FNum (num_or (Some (minSilenceDuration a)) DEFAULT_MIN_SILENCE_DURATION)]"
  by (simp_all add: buildFormData_def Let_def fd_getAll_append fd_getAll_audio_files
      fd_getAll_Nil)

lemma parseInt_99999: "parseInt ''99999'' = Some 99999"
  by (simp add: parseInt_def Let_def isWhiteSpace_def digitValue_def digitsNumber_def)

lemma parseInt_7: "parseInt ''7'' = Some 7"
  by (simp add: parseInt_def Let_def isWhiteSpace_def digitValue_def digitsNumber_def)

text \<open>
  C2 at the entered value \<open>99999\<close>. \<open>handleVadChange\<close> stores the parsed number as it
  is, and with the panel open the single-file submission posts it as
  \<open>min_speech_duration\<close>: a threshold above 5000, neither clamped nor rejected. The
  monolithic \<open>App\<close> likewise posts an entered 7, below 100.
\<close>

theorem threshold_99999_is_sent:
  "minSpeechDuration ex_typed_threshold = 99999
   \<and> showAdvancedOptions ex_typed_threshold
   \<and> snd (App_handleSingleSubmit nts (Resolved (Response ''ok'')) ex_typed_threshold proc_init)
       = [Post ''/asr/process'' (buildFormData ex_typed_threshold False)]
   \<and> fd_getAll (buildFormData ex_typed_threshold False) ''min_speech_duration'' = [FNum 99999]
   \<and> error (fst (App_handleSingleSubmit nts (Resolved (Response ''ok'')) ex_typed_threshold
        proc_init)) = None
   \<and> snd (mono_handleSingleSubmit ex_texts (Resolved (Response ''ok''))
        (mono_onChange_minSilenceDuration ''7'' ex_mono_panel_open) proc_init)
       = [Post ''http://localhost:8000/api/v1/asr/process''
            (mono_singleForm (mono_onChange_minSilenceDuration ''7'' ex_mono_panel_open))]
   \<and> fd_getAll (mono_singleForm (mono_onChange_minSilenceDuration ''7'' ex_mono_panel_open))
        ''min_silence_duration'' = [FNum 7]"
proof -
  have v: "minSpeechDuration ex_typed_threshold = 99999"
    by (simp add: ex_typed_threshold_def handleVadChange_stores parseInt_99999 num_or_def)
  have o: "showAdvancedOptions ex_typed_threshold" "length (audioFiles ex_typed_threshold) = 1"
    by (simp_all add: ex_typed_threshold_def handleVadChange_def handleVadConfigChange_def
        ex_panel_open_def onToggleAdvancedOptions_def ex_one_file_def setAudioFiles_def
        app_init_def)
  have r: "snd (App_handleSingleSubmit nts (Resolved (Response ''ok'')) ex_typed_threshold proc_init)
       = [Post ''/asr/process'' (buildFormData ex_typed_threshold False)]"
    "error (fst (App_handleSingleSubmit nts (Resolved (Response ''ok'')) ex_typed_threshold
        proc_init)) = None"
    using o by (simp_all add: App_handleSingleSubmit_def hook_handleSingleSubmit_def
        api_processSingleFile_def resetResults_def Let_def)
  have f: "fd_getAll (buildFormData ex_typed_threshold False) ''min_speech_duration''
             = [FNum 99999]"
    using o v by (simp add: buildFormData_thresholds num_or_def)
  let ?b = "mono_onChange_minSilenceDuration ''7'' ex_mono_panel_open"
  have b: "showAdvancedOptions ?b" "length (audioFiles ?b) = 1" "minSilenceDuration ?b = 7"
    by (simp_all add: mono_onChange_minSilenceDuration_def parseInt_7 num_or_def
        ex_mono_panel_open_def onToggleAdvancedOptions_def ex_mono_one_file_def
        setAudioFiles_def mono_init_def)
  have mr: "snd (mono_handleSingleSubmit ex_texts (Resolved (Response ''ok'')) ?b proc_init)
       = [Post ''http://localhost:8000/api/v1/asr/process'' (mono_singleForm ?b)]"
    using b by (simp add: mono_handleSingleSubmit_def Let_def)
  have mf: "fd_getAll (mono_singleForm ?b) ''min_silence_duration'' = [FNum 7]"
    using b by (simp add: mono_singleForm_def mono_formTail_def Let_def fd_getAll_append
        fd_getAll_Nil)
  from v o r f mr mf show ?thesis by simp
qed

end
